theory Spec2Isabelle
  imports Main "HOL-Library.AList"
begin

section \<open>The voice OTP client of \<^verbatim>\<open>examples/generic/python-requests.py\<close>\<close>

text \<open>
  The script reads two environment variables, chooses a code, posts one JSON request to
  the gateway and interprets the response. Everything outside the script is a parameter
  of the model: the process environment, the value \<^verbatim>\<open>random.randint\<close> returns, what
  \<^verbatim>\<open>requests.post\<close> answers, and Python's \<^verbatim>\<open>repr\<close> of a compound value. The calls
  of \<^verbatim>\<open>requests.post\<close> are logged, so that "no network call" and "exactly one call"
  are statements about the log.

  Python strings are modelled as \<^typ>\<open>string\<close>: sequences of characters with code
  points below 256. In that range the regular expression class \<^verbatim>\<open>\d\<close> is exactly the
  ten ASCII digits.
\<close>

subsection \<open>Values\<close>

text \<open>
  What \<^verbatim>\<open>response.json()\<close> can return. A Python float is represented by its
  \<^verbatim>\<open>repr\<close>, which identifies it. A dict is an association list in insertion order;
  \<^const>\<open>map_of\<close> reads it and \<^const>\<open>AList.update\<close> is \<^verbatim>\<open>d[k] = v\<close>.
\<close>

datatype jvalue =
    JNull
  | JBool bool
  | JInt int
  | JFloat string
  | JStr string
  | JArr "jvalue list"
  | JObj "(string \<times> jvalue) list"

type_synonym dict = "(string \<times> jvalue) list"

text \<open>
  The exceptions the script raises itself (\<open>ValueError\<close>, \<open>HTTPError\<close>), those the
  interpreter raises on its expressions (\<open>AttributeError\<close>, \<open>TypeError\<close>), the one
  \<^verbatim>\<open>response.json()\<close> raises on a body that is not JSON, and whatever
  \<^verbatim>\<open>requests.post\<close> raises (class name and message). All are subclasses of
  \<^verbatim>\<open>Exception\<close>; each carries the text \<^verbatim>\<open>str(e)\<close> gives.
\<close>

datatype exn =
    ValueError string
  | HTTPError string
  | AttributeError string
  | TypeError string
  | JSONDecodeError string
  | TransportError string string

fun str_exn :: "exn \<Rightarrow> string" where
  "str_exn (ValueError m) = m"
| "str_exn (HTTPError m) = m"
| "str_exn (AttributeError m) = m"
| "str_exn (TypeError m) = m"
| "str_exn (JSONDecodeError m) = m"
| "str_exn (TransportError c m) = m"

text \<open>The keyword arguments of the one \<^verbatim>\<open>requests.post\<close> call, and its answer.\<close>

record post_args =
  url :: string
  json :: "(string \<times> string) list"
  headers :: "(string \<times> string) list"
  timeout :: nat

record response =
  ok :: bool
  response_json :: "string + jvalue"

text \<open>
  The world outside the script. \<open>randint w a b\<close> is the value \<^verbatim>\<open>random.randint(a, b)\<close>
  returns in this run; the library promises \<open>a \<le> randint w a b \<le> b\<close>.
\<close>

record world =
  environ :: "string \<rightharpoonup> string"
  randint :: "int \<Rightarrow> int \<Rightarrow> int"
  post :: "post_args \<Rightarrow> exn + response"
  repr :: "jvalue \<Rightarrow> string"

subsection \<open>Python's \<^verbatim>\<open>str\<close> and \<^verbatim>\<open>int\<close> on integers\<close>

definition digit_char :: "nat \<Rightarrow> char" where
  "digit_char d = ''0123456789'' ! d"

definition is_digit :: "char \<Rightarrow> bool" where
  "is_digit c = (c \<in> set ''0123456789'')"

definition digit_val :: "char \<Rightarrow> nat" where
  "digit_val c = of_char c - 48"

fun str_nat :: "nat \<Rightarrow> string" where
  "str_nat n = (if n < 10 then [digit_char n] else str_nat (n div 10) @ [digit_char (n mod 10)])"

declare str_nat.simps [simp del]

definition str_int :: "int \<Rightarrow> string" where
  "str_int i = (if i < 0 then CHR ''-'' # str_nat (nat (- i)) else str_nat (nat i))"

text \<open>The value of a string of digits, as \<^verbatim>\<open>int(s)\<close> computes it.\<close>

definition int_of_digits :: "string \<Rightarrow> int" where
  "int_of_digits s = int (foldl (\<lambda>a c. 10 * a + digit_val c) 0 s)"

subsection \<open>\<^verbatim>\<open>generate_otp\<close>\<close>

definition generate_otp :: "world \<Rightarrow> string" where
  "generate_otp w = str_int (randint w 100000 999999)"

subsection \<open>\<^verbatim>\<open>send_voice_otp\<close>\<close>

fun type_name :: "jvalue \<Rightarrow> string" where
  "type_name JNull = ''NoneType''"
| "type_name (JBool b) = ''bool''"
| "type_name (JInt i) = ''int''"
| "type_name (JFloat f) = ''float''"
| "type_name (JStr s) = ''str''"
| "type_name (JArr xs) = ''list''"
| "type_name (JObj d) = ''dict''"

text \<open>\<^verbatim>\<open>error.get(k)\<close>: \<^verbatim>\<open>None\<close> for a key the dict lacks; only a dict has \<^verbatim>\<open>get\<close>.\<close>

fun get :: "jvalue \<Rightarrow> string \<Rightarrow> exn + jvalue" where
  "get (JObj d) k = Inr (case map_of d k of None \<Rightarrow> JNull | Some v \<Rightarrow> v)"
| "get v k = Inl (AttributeError
     ([CHR 0x27] @ type_name v @ [CHR 0x27] @ '' object has no attribute '' @
      [CHR 0x27] @ ''get'' @ [CHR 0x27]))"

text \<open>A value inside an f-string: \<^verbatim>\<open>str(v)\<close>.\<close>

fun format_value :: "world \<Rightarrow> jvalue \<Rightarrow> string" where
  "format_value w (JStr s) = s"
| "format_value w JNull = ''None''"
| "format_value w (JBool b) = (if b then ''True'' else ''False'')"
| "format_value w (JInt i) = str_int i"
| "format_value w v = repr w v"

text \<open>\<^verbatim>\<open>{"code": otp_code, **d}\<close>: the entries of \<open>d\<close> are stored, in order, into the
  dict that holds \<open>code\<close>.\<close>

definition dict_display :: "string \<Rightarrow> dict \<Rightarrow> dict" where
  "dict_display otp_code d = foldl (\<lambda>acc (k, v). AList.update k v acc) [(''code'', JStr otp_code)] d"

text \<open>
  Lines 62 to 68: what the function makes of the response. On a status that is not ok the
  body is parsed first and the error is built from the parsed value; on an ok status the
  parsed body is spread into the dict display.
\<close>

definition api_error :: "world \<Rightarrow> jvalue \<Rightarrow> exn" where
  "api_error w error =
     (case get error ''message'' of
        Inl e \<Rightarrow> e
      | Inr message \<Rightarrow>
          (case get error ''error'' of
             Inl e \<Rightarrow> e
           | Inr err \<Rightarrow>
               HTTPError (''API Error: '' @ format_value w message @
                          '' ('' @ format_value w err @ '')'')))"

definition interpret_response :: "world \<Rightarrow> string \<Rightarrow> response \<Rightarrow> exn + dict" where
  "interpret_response w otp_code response =
     (if \<not> ok response then
        (case response_json response of
           Inl m \<Rightarrow> Inl (JSONDecodeError m)
         | Inr error \<Rightarrow> Inl (api_error w error))
      else
        (case response_json response of
           Inl m \<Rightarrow> Inl (JSONDecodeError m)
         | Inr (JObj d) \<Rightarrow> Inr (dict_display otp_code d)
         | Inr v \<Rightarrow> Inl (TypeError
             ([CHR 0x27] @ type_name v @ [CHR 0x27] @ '' object is not a mapping''))))"

text \<open>Line 49, \<^verbatim>\<open>code or generate_otp()\<close>: \<^verbatim>\<open>None\<close> and the empty string are falsy.\<close>

definition effective_code :: "world \<Rightarrow> string option \<Rightarrow> string" where
  "effective_code w code =
     (case code of
        None \<Rightarrow> generate_otp w
      | Some c \<Rightarrow> if c = [] then generate_otp w else c)"

text \<open>
  \<^verbatim>\<open>os.environ.get\<close> gives \<^verbatim>\<open>None\<close> for an unset variable, and \<^verbatim>\<open>not x\<close> holds of
  \<^verbatim>\<open>None\<close> and of the empty string. The first component of the result is the log of
  the calls of \<^verbatim>\<open>requests.post\<close>.
\<close>

definition send_voice_otp :: "world \<Rightarrow> string \<Rightarrow> string option \<Rightarrow> post_args list \<times> (exn + dict)" where
  "send_voice_otp w phone code =
     (let gateway_url = environ w ''GATEWAY_URL'';
          api_secret = environ w ''API_SECRET'';
          no_gateway_url = ([], Inl (ValueError ''GATEWAY_URL environment variable is required''));
          no_api_secret = ([], Inl (ValueError ''API_SECRET environment variable is required''))
      in case gateway_url of
           None \<Rightarrow> no_gateway_url
         | Some gateway_url \<Rightarrow>
             if gateway_url = [] then no_gateway_url
             else
               (case api_secret of
                  None \<Rightarrow> no_api_secret
                | Some api_secret \<Rightarrow>
                    if api_secret = [] then no_api_secret
                    else
                      let otp_code = effective_code w code;
                          args = \<lparr>url = gateway_url @ ''/send-otp'',
                                  json = [(''phone'', phone), (''code'', otp_code),
                                          (''secret'', api_secret)],
                                  headers = [(''Content-Type'', ''application/json'')],
                                  timeout = 30\<rparr>
                      in case post w args of
                           Inl e \<Rightarrow> ([args], Inl e)
                         | Inr response \<Rightarrow>
                             ([args], interpret_response w otp_code response)))"

subsection \<open>The phone pattern\<close>

text \<open>
  The regular expression \<^verbatim>\<open>^\+[1-9]\d{9,14}$\<close> as data, and \<^verbatim>\<open>re.match\<close> on
  patterns of this shape. \<open>Bol\<close> is \<^verbatim>\<open>^\<close>, which holds at the start of the string;
  \<open>Eol\<close> is \<^verbatim>\<open>$\<close>, which (without \<^verbatim>\<open>re.MULTILINE\<close>) holds at the end of the
  string and also just before a newline that ends the string; \<open>Rep m n cs\<close> is
  \<^verbatim>\<open>[cs]{m,n}\<close>. \<^verbatim>\<open>re.match\<close> tries the pattern at the start of the string only and
  does not require it to reach the end. The flag says whether the position is the start
  of the string.
\<close>

datatype rx = Bol | Eol | Lit char | OneOf "char list" | Rep nat nat "char list"

fun rx_match :: "rx list \<Rightarrow> bool \<Rightarrow> string \<Rightarrow> bool" where
  "rx_match [] at_start s = True"
| "rx_match (Bol # rs) at_start s = (at_start \<and> rx_match rs at_start s)"
| "rx_match (Eol # rs) at_start s = ((s = [] \<or> s = [CHR 0x0A]) \<and> rx_match rs at_start s)"
| "rx_match (Lit c # rs) at_start [] = False"
| "rx_match (Lit c # rs) at_start (x # xs) = (x = c \<and> rx_match rs False xs)"
| "rx_match (OneOf cs # rs) at_start [] = False"
| "rx_match (OneOf cs # rs) at_start (x # xs) = (x \<in> set cs \<and> rx_match rs False xs)"
| "rx_match (Rep m n cs # rs) at_start [] = (m = 0 \<and> rx_match rs at_start [])"
| "rx_match (Rep m n cs # rs) at_start (x # xs) =
     ((0 < n \<and> x \<in> set cs \<and> rx_match (Rep (m - 1) (n - 1) cs # rs) False xs)
      \<or> (m = 0 \<and> rx_match rs at_start (x # xs)))"

definition re_match :: "rx list \<Rightarrow> string \<Rightarrow> bool" where
  "re_match p s = rx_match p True s"

definition phone_pattern :: "rx list" where
  "phone_pattern =
     [Bol, Lit (CHR ''+''), OneOf ''123456789'', Rep 9 14 ''0123456789'', Eol]"

subsection \<open>\<^verbatim>\<open>main\<close>\<close>

text \<open>
  What one run of the script leaves behind: the lines printed, the exit status (0 when
  \<^verbatim>\<open>main\<close> returns, the argument of \<^verbatim>\<open>sys.exit\<close> otherwise) and the calls of
  \<^verbatim>\<open>requests.post\<close>.
\<close>

record run =
  stdout :: "string list"
  exit_status :: nat
  http_calls :: "post_args list"

definition main :: "world \<Rightarrow> string list \<Rightarrow> run" where
  "main w argv =
     (if length argv < 2 then
        \<lparr>stdout = [''Usage: python python-requests.py <phone> [code]'',
                   ''Example: python python-requests.py +14155551234''],
         exit_status = 1, http_calls = []\<rparr>
      else
        let phone = argv ! 1;
            code = (if length argv > 2 then Some (argv ! 2) else None)
        in if \<not> re_match phone_pattern phone then
             \<lparr>stdout = [''Error: Phone must be in E.164 format (e.g., +14155551234)''],
              exit_status = 1, http_calls = []\<rparr>
           else
             (case send_voice_otp w phone code of
                (calls, Inr result) \<Rightarrow>
                  \<lparr>stdout = [''Sending OTP to '' @ phone @ ''...'',
                             ''Success: '' @ repr w (JObj result)],
                   exit_status = 0, http_calls = calls\<rparr>
              | (calls, Inl e) \<Rightarrow>
                  \<lparr>stdout = [''Sending OTP to '' @ phone @ ''...'',
                             ''Failed: '' @ str_exn e],
                   exit_status = 1, http_calls = calls\<rparr>))"

subsection \<open>Codes and a mocked world\<close>

text \<open>A string of exactly six ASCII digits whose value lies between 100000 and 999999.\<close>

definition is_otp_code :: "string \<Rightarrow> bool" where
  "is_otp_code c =
     (length c = 6 \<and> list_all is_digit c \<and>
      100000 \<le> int_of_digits c \<and> int_of_digits c \<le> 999999)"

text \<open>
  A world for concrete runs: the environment is a list of bindings, \<^verbatim>\<open>random.randint\<close>
  returns \<open>draw\<close>, the transport answers \<open>answer\<close> to every request, and \<^verbatim>\<open>repr\<close> is
  a stand-in.
\<close>

definition mock_world :: "(string \<times> string) list \<Rightarrow> int \<Rightarrow> exn + response \<Rightarrow> world" where
  "mock_world env draw answer =
     \<lparr>environ = map_of env, randint = (\<lambda>a b. draw), post = (\<lambda>args. answer),
      repr = (\<lambda>v. ''{...}'')\<rparr>"

text \<open>
  The values used in concrete runs: an environment with both variables set, the success
  body and the failure body of the gateway.
\<close>

definition gateway_env :: "(string \<times> string) list" where
  "gateway_env = [(''GATEWAY_URL'', ''https://gateway.example''), (''API_SECRET'', ''s3cret'')]"

definition queued_response :: response where
  "queued_response =
     \<lparr>ok = True,
      response_json = Inr (JObj [(''call_id'', JStr ''abc123''), (''status'', JStr ''queued'')])\<rparr>"

definition auth_failed_response :: response where
  "auth_failed_response =
     \<lparr>ok = False,
      response_json = Inr (JObj [(''message'', JStr ''invalid secret''),
                                 (''error'', JStr ''AUTH_FAILED'')])\<rparr>"

section \<open>Auxiliary facts\<close>

subsection \<open>Decimal digits\<close>

lemma digit_val_digit_char: "d < 10 \<Longrightarrow> digit_val (digit_char d) = d"
proof -
  assume "d < 10"
  then have "d \<in> {0, 1, 2, 3, 4, 5, 6, 7, 8, 9}" by auto
  then show ?thesis
    by (auto simp: digit_val_def digit_char_def)
qed

lemma is_digit_digit_char: "d < 10 \<Longrightarrow> is_digit (digit_char d)"
proof -
  assume "d < 10"
  then have "d \<in> {0, 1, 2, 3, 4, 5, 6, 7, 8, 9}" by auto
  then show ?thesis
    by (auto simp: is_digit_def digit_char_def)
qed

lemma digit_char_digit_val: "is_digit c \<Longrightarrow> digit_char (digit_val c) = c"
  by (auto simp: is_digit_def digit_char_def digit_val_def)

lemma digit_val_less: "is_digit c \<Longrightarrow> digit_val c < 10"
  by (auto simp: is_digit_def digit_val_def)

lemma digit_val_zero: "is_digit c \<Longrightarrow> digit_val c = 0 \<longleftrightarrow> c = CHR ''0''"
  by (auto simp: is_digit_def digit_val_def)

lemma str_nat_digits: "list_all is_digit (str_nat n)"
proof (induction n rule: str_nat.induct)
  case (1 n)
  show ?case
  proof (cases "n < 10")
    case True
    then show ?thesis by (subst str_nat.simps) (simp add: is_digit_digit_char)
  next
    case False
    with 1 show ?thesis by (subst str_nat.simps) (simp add: is_digit_digit_char)
  qed
qed

lemma str_nat_value: "foldl (\<lambda>a c. 10 * a + digit_val c) 0 (str_nat n) = n"
proof (induction n rule: str_nat.induct)
  case (1 n)
  show ?case
  proof (cases "n < 10")
    case True
    then show ?thesis by (subst str_nat.simps) (simp add: digit_val_digit_char)
  next
    case False
    with 1 show ?thesis by (subst str_nat.simps) (simp add: digit_val_digit_char)
  qed
qed

lemma str_nat_length: "10 ^ k \<le> n \<Longrightarrow> n < 10 ^ Suc k \<Longrightarrow> length (str_nat n) = Suc k"
proof (induction k arbitrary: n)
  case 0
  then show ?case by (subst str_nat.simps) simp
next
  case (Suc k)
  have "(1::nat) \<le> 10 ^ k" by simp
  moreover from Suc.prems(1) have "10 * 10 ^ k \<le> n" by simp
  ultimately have big: "\<not> n < 10" by linarith
  from Suc.prems have "10 ^ k \<le> n div 10" "n div 10 < 10 ^ Suc k"
    by (auto simp: less_mult_imp_div_less)
  then have "length (str_nat (n div 10)) = Suc k" by (rule Suc.IH)
  with big show ?case by (subst str_nat.simps) simp
qed

lemma foldl_digits_acc:
  "foldl (\<lambda>a c. 10 * a + digit_val c) a xs =
     a * 10 ^ length xs + foldl (\<lambda>a c. 10 * a + digit_val c) 0 xs"
proof (induction xs arbitrary: a)
  case Nil
  show ?case by simp
next
  case (Cons x xs)
  have "foldl (\<lambda>a c. 10 * a + digit_val c) a (x # xs) =
        (10 * a + digit_val x) * 10 ^ length xs + foldl (\<lambda>a c. 10 * a + digit_val c) 0 xs"
    using Cons.IH [of "10 * a + digit_val x"] by simp
  also have "\<dots> = a * 10 ^ length (x # xs) +
        (digit_val x * 10 ^ length xs + foldl (\<lambda>a c. 10 * a + digit_val c) 0 xs)"
    by (simp add: algebra_simps)
  also have "digit_val x * 10 ^ length xs + foldl (\<lambda>a c. 10 * a + digit_val c) 0 xs =
        foldl (\<lambda>a c. 10 * a + digit_val c) 0 (x # xs)"
    using Cons.IH [of "digit_val x"] by simp
  finally show ?case .
qed

lemma digits_value_Cons:
  "foldl (\<lambda>a c. 10 * a + digit_val c) 0 (x # xs) =
     digit_val x * 10 ^ length xs + foldl (\<lambda>a c. 10 * a + digit_val c) 0 xs"
  using foldl_digits_acc [of "digit_val x" xs] by simp

lemma digits_value_less:
  "list_all is_digit xs \<Longrightarrow> foldl (\<lambda>a c. 10 * a + digit_val c) 0 xs < 10 ^ length xs"
proof (induction xs rule: rev_induct)
  case Nil
  show ?case by simp
next
  case (snoc x xs)
  then have "foldl (\<lambda>a c. 10 * a + digit_val c) 0 xs < 10 ^ length xs" "digit_val x < 10"
    by (simp_all add: digit_val_less)
  then have "10 * foldl (\<lambda>a c. 10 * a + digit_val c) 0 xs + digit_val x < 10 * 10 ^ length xs"
    by linarith
  then show ?case by simp
qed

lemma str_nat_digits_value:
  "list_all is_digit xs \<Longrightarrow> xs \<noteq> [] \<Longrightarrow> hd xs \<noteq> CHR ''0'' \<Longrightarrow>
   str_nat (foldl (\<lambda>a c. 10 * a + digit_val c) 0 xs) = xs"
proof (induction xs rule: rev_induct)
  case Nil
  then show ?case by simp
next
  case (snoc x xs)
  have dx: "is_digit x" "digit_val x < 10"
    using snoc.prems by (simp_all add: digit_val_less)
  show ?case
  proof (cases "xs = []")
    case True
    with dx show ?thesis
      by (subst str_nat.simps) (simp add: digit_char_digit_val)
  next
    case False
    then obtain y ys where xs: "xs = y # ys" by (cases xs) auto
    with snoc.prems have y: "is_digit y" "y \<noteq> CHR ''0''" by simp_all
    then have "0 < digit_val y" using digit_val_zero [of y] by simp
    then have pos: "0 < foldl (\<lambda>a c. 10 * a + digit_val c) 0 xs"
      unfolding xs digits_value_Cons by simp
    have "str_nat (foldl (\<lambda>a c. 10 * a + digit_val c) 0 xs) = xs"
      using snoc.prems False xs by (intro snoc.IH) simp_all
    moreover have "foldl (\<lambda>a c. 10 * a + digit_val c) 0 (xs @ [x]) =
        10 * foldl (\<lambda>a c. 10 * a + digit_val c) 0 xs + digit_val x" by simp
    ultimately show ?thesis
      using pos dx by (subst str_nat.simps) (simp add: digit_char_digit_val)
  qed
qed

subsection \<open>The dict display\<close>

lemma map_of_foldl_update:
  "distinct (map fst d) \<Longrightarrow>
   map_of (foldl (\<lambda>acc (k, v). AList.update k v acc) base d) = map_of base ++ map_of d"
proof (induction d arbitrary: base)
  case Nil
  show ?case by simp
next
  case (Cons kv d)
  obtain k v where kv: "kv = (k, v)" by (cases kv)
  from Cons.prems kv have k: "k \<notin> fst ` set d" and dist: "distinct (map fst d)" by auto
  have "map_of (foldl (\<lambda>acc (k, v). AList.update k v acc) base (kv # d)) =
        map_of (AList.update k v base) ++ map_of d"
    using Cons.IH [OF dist, of "AList.update k v base"] kv by simp
  also have "\<dots> = (map_of base)(k \<mapsto> v) ++ map_of d"
    by (simp add: update_conv')
  also have "\<dots> = map_of base ++ map_of (kv # d)"
  proof
    fix x
    have "map_of d k = None" using k by (simp add: map_of_eq_None_iff)
    then show "((map_of base)(k \<mapsto> v) ++ map_of d) x = (map_of base ++ map_of (kv # d)) x"
      using kv by (auto simp: map_add_def split: option.splits)
  qed
  finally show ?case .
qed

subsection \<open>The phone pattern\<close>

lemma rep_eol_iff:
  "rx_match [Rep m n cs, Eol] b s \<longleftrightarrow>
     (\<exists>ds tl. s = ds @ tl \<and> m \<le> length ds \<and> length ds \<le> n \<and> set ds \<subseteq> set cs \<and>
        (tl = [] \<or> tl = [CHR 0x0A]))"
proof (induction s arbitrary: m n b)
  case Nil
  show ?case by auto
next
  case (Cons x xs)
  show ?case (is "?L \<longleftrightarrow> ?R")
  proof
    assume ?L
    then consider (step) "0 < n" "x \<in> set cs" "rx_match [Rep (m - 1) (n - 1) cs, Eol] False xs"
      | (stop) "m = 0" "xs = []" "x = CHR 0x0A"
      by auto
    then show ?R
    proof cases
      case step
      from step(3) Cons.IH obtain ds tl where
        "xs = ds @ tl" "m - 1 \<le> length ds" "length ds \<le> n - 1" "set ds \<subseteq> set cs"
        "tl = [] \<or> tl = [CHR 0x0A]" by blast
      with step(1,2) show ?thesis
        by (intro exI [of _ "x # ds"] exI [of _ tl]) auto
    next
      case stop
      then show ?thesis by (intro exI [of _ "[]"] exI [of _ "[x]"]) simp
    qed
  next
    assume ?R
    then obtain ds tl where r: "x # xs = ds @ tl" "m \<le> length ds" "length ds \<le> n"
      "set ds \<subseteq> set cs" "tl = [] \<or> tl = [CHR 0x0A]" by blast
    show ?L
    proof (cases ds)
      case Nil
      with r show ?thesis by auto
    next
      case (Cons d ds')
      with r have "x = d" "xs = ds' @ tl" "m - 1 \<le> length ds'" "length ds' \<le> n - 1"
        "set ds' \<subseteq> set cs" "d \<in> set cs" "0 < n" by auto
      moreover from this r(5) have "rx_match [Rep (m - 1) (n - 1) cs, Eol] False xs"
        using Cons.IH by blast
      ultimately show ?thesis by simp
    qed
  qed
qed

lemma digits_subset_iff: "set ds \<subseteq> set ''0123456789'' \<longleftrightarrow> list_all is_digit ds"
  unfolding list_all_iff is_digit_def by blast

lemma phone_accepted_iff:
  "re_match phone_pattern s \<longleftrightarrow>
     (\<exists>d ds tl. s = CHR ''+'' # d # ds @ tl \<and> d \<in> set ''123456789'' \<and>
        9 \<le> length ds \<and> length ds \<le> 14 \<and> list_all is_digit ds \<and>
        (tl = [] \<or> tl = [CHR 0x0A]))"
  (is "?L \<longleftrightarrow> ?R")
proof (cases s)
  case Nil
  then show ?thesis by (simp add: re_match_def phone_pattern_def)
next
  case outer: (Cons p s')
  show ?thesis
  proof (cases s')
    case Nil
    with outer show ?thesis by (simp add: re_match_def phone_pattern_def)
  next
    case (Cons d s'')
    with outer have s: "s = p # d # s''" by simp
    have L: "?L \<longleftrightarrow>
        p = CHR ''+'' \<and> d \<in> set ''123456789'' \<and> rx_match [Rep 9 14 ''0123456789'', Eol] False s''"
      unfolding s re_match_def phone_pattern_def
      by (simp only: rx_match.simps simp_thms)
    have R: "?R \<longleftrightarrow> p = CHR ''+'' \<and> d \<in> set ''123456789'' \<and>
        (\<exists>ds tl. s'' = ds @ tl \<and> 9 \<le> length ds \<and> length ds \<le> 14 \<and> list_all is_digit ds \<and>
        (tl = [] \<or> tl = [CHR 0x0A]))"
      unfolding s by (simp only: list.inject) blast
    show ?thesis
      unfolding L R rep_eol_iff digits_subset_iff ..
  qed
qed

subsection \<open>The configuration check\<close>

lemma send_voice_otp_configured:
  assumes "environ w ''GATEWAY_URL'' = Some g" "g \<noteq> []"
      and "environ w ''API_SECRET'' = Some s" "s \<noteq> []"
  shows "send_voice_otp w phone code =
     (let args = \<lparr>url = g @ ''/send-otp'',
                  json = [(''phone'', phone), (''code'', effective_code w code), (''secret'', s)],
                  headers = [(''Content-Type'', ''application/json'')],
                  timeout = 30\<rparr>
      in ([args], case post w args of
                    Inl e \<Rightarrow> Inl e
                  | Inr response \<Rightarrow> interpret_response w (effective_code w code) response))"
  using assms by (simp add: send_voice_otp_def Let_def split: sum.splits)

lemma send_voice_otp_unconfigured:
  "environ w ''GATEWAY_URL'' = None \<or> environ w ''GATEWAY_URL'' = Some [] \<Longrightarrow>
   send_voice_otp w phone code =
     ([], Inl (ValueError ''GATEWAY_URL environment variable is required''))"
  "environ w ''GATEWAY_URL'' = Some g \<Longrightarrow> g \<noteq> [] \<Longrightarrow>
   environ w ''API_SECRET'' = None \<or> environ w ''API_SECRET'' = Some [] \<Longrightarrow>
   send_voice_otp w phone code =
     ([], Inl (ValueError ''API_SECRET environment variable is required''))"
  by (auto simp: send_voice_otp_def Let_def)

subsection \<open>Codes\<close>

lemma str_int_482913: "str_int 482913 = ''482913''"
  by (simp add: str_int_def str_nat.simps digit_char_def)

lemma generate_otp_is_code:
  assumes "100000 \<le> r" "r \<le> 999999"
  shows "is_otp_code (str_int r)" "int_of_digits (str_int r) = r"
proof -
  from assms have n: "10 ^ 5 \<le> nat r" "nat r < 10 ^ Suc 5" by simp_all
  have s: "str_int r = str_nat (nat r)" using assms by (simp add: str_int_def)
  show v: "int_of_digits (str_int r) = r"
    using assms by (simp add: s int_of_digits_def str_nat_value)
  have "length (str_nat (nat r)) = Suc 5" using n by (rule str_nat_length)
  with v assms show "is_otp_code (str_int r)"
    by (simp add: is_otp_code_def s str_nat_digits)
qed

lemma otp_code_is_generated:
  assumes "is_otp_code c"
  shows "str_int (int_of_digits c) = c"
proof -
  from assms have len: "length c = 6" and digs: "list_all is_digit c"
    and lo: "100000 \<le> int_of_digits c" by (simp_all add: is_otp_code_def)
  from len obtain x xs where c: "c = x # xs" "length xs = 5" by (cases c) auto
  have "hd c \<noteq> CHR ''0''"
  proof
    assume "hd c = CHR ''0''"
    with c have "digit_val x = 0" by (simp add: digit_val_def)
    then have "foldl (\<lambda>a c. 10 * a + digit_val c) 0 c = foldl (\<lambda>a c. 10 * a + digit_val c) 0 xs"
      unfolding c(1) digits_value_Cons by simp
    moreover have "foldl (\<lambda>a c. 10 * a + digit_val c) 0 xs < 10 ^ length xs"
      using digs c by (intro digits_value_less) simp
    ultimately have "int_of_digits c < 100000"
      using c(2) by (simp add: int_of_digits_def)
    with lo show False by simp
  qed
  with digs c have "str_nat (foldl (\<lambda>a c. 10 * a + digit_val c) 0 c) = c"
    by (intro str_nat_digits_value) simp_all
  then show ?thesis by (simp add: str_int_def int_of_digits_def)
qed

lemma draws_of_code:
  "{r. 100000 \<le> r \<and> r \<le> 999999 \<and> str_int r = c} = (if is_otp_code c then {int_of_digits c} else {})"
proof (cases "is_otp_code c")
  case True
  have "r = int_of_digits c" if "100000 \<le> r" "r \<le> 999999" "str_int r = c" for r
    using generate_otp_is_code(2) [OF that(1,2)] that(3) by simp
  moreover have "100000 \<le> int_of_digits c" "int_of_digits c \<le> 999999"
    using True by (simp_all add: is_otp_code_def)
  moreover note otp_code_is_generated [OF True]
  ultimately have "{r. 100000 \<le> r \<and> r \<le> 999999 \<and> str_int r = c} = {int_of_digits c}"
    by blast
  with True show ?thesis by simp
next
  case False
  have "False" if "100000 \<le> r" "r \<le> 999999" "str_int r = c" for r
    using generate_otp_is_code(1) [OF that(1,2)] that(3) False by simp
  then have "{r. 100000 \<le> r \<and> r \<le> 999999 \<and> str_int r = c} = {}" by blast
  with False show ?thesis by simp
qed

subsection \<open>The mocked world and the API error\<close>

lemma mock_world_simps:
  "environ (mock_world env draw answer) = map_of env"
  "randint (mock_world env draw answer) a b = draw"
  "post (mock_world env draw answer) args = answer"
  "repr (mock_world env draw answer) v = ''{...}''"
  by (simp_all add: mock_world_def)

lemma generate_otp_mock: "generate_otp (mock_world env 482913 answer) = ''482913''"
  by (simp add: generate_otp_def mock_world_simps str_int_482913)

lemma api_error_object:
  "api_error w (JObj d) =
     HTTPError (''API Error: '' @
       (case map_of d ''message'' of None \<Rightarrow> ''None'' | Some v \<Rightarrow> format_value w v) @ '' ('' @
       (case map_of d ''error'' of None \<Rightarrow> ''None'' | Some v \<Rightarrow> format_value w v) @ '')'')"
  by (simp add: api_error_def split: option.splits)

lemma api_error_not_object:
  "(\<forall>d. v \<noteq> JObj d) \<Longrightarrow> \<exists>m. api_error w v = AttributeError m"
  by (cases v) (simp_all add: api_error_def)

subsection \<open>Concrete runs\<close>

lemma example_phone_matches: "re_match phone_pattern ''+14155551234''"
  by (simp add: re_match_def phone_pattern_def)

lemma send_queued:
  "send_voice_otp (mock_world gateway_env 482913 (Inr queued_response)) phone None =
     ([\<lparr>url = ''https://gateway.example/send-otp'',
        json = [(''phone'', phone), (''code'', ''482913''), (''secret'', ''s3cret'')],
        headers = [(''Content-Type'', ''application/json'')],
        timeout = 30\<rparr>],
      Inr [(''code'', JStr ''482913''), (''call_id'', JStr ''abc123''),
           (''status'', JStr ''queued'')])"
  by (simp add: send_voice_otp_def mock_world_simps gateway_env_def Let_def effective_code_def
      generate_otp_mock interpret_response_def dict_display_def queued_response_def)

lemma send_auth_failed:
  "send_voice_otp (mock_world gateway_env 482913 (Inr auth_failed_response)) phone None =
     ([\<lparr>url = ''https://gateway.example/send-otp'',
        json = [(''phone'', phone), (''code'', ''482913''), (''secret'', ''s3cret'')],
        headers = [(''Content-Type'', ''application/json'')],
        timeout = 30\<rparr>],
      Inl (HTTPError ''API Error: invalid secret (AUTH_FAILED)''))"
  by (simp add: send_voice_otp_def mock_world_simps gateway_env_def Let_def effective_code_def
      generate_otp_mock interpret_response_def api_error_object auth_failed_response_def)

section \<open>The claims\<close>

subsection \<open>Generated codes\<close>

text \<open>
  Claim C6. Provided \<^verbatim>\<open>random.randint(100000, 999999)\<close> returns a value in that range,
  as the library promises, the code \<^verbatim>\<open>generate_otp\<close> produces is a string of exactly six
  ASCII digits whose integer value is the value drawn, hence lies in [100000, 999999].
  The draw is passed through unchanged: every string of that form is produced by exactly
  one of the 900000 possible draws and no other string by any, so a draw that is uniform
  over the range gives a code that is uniform over those strings.
\<close>

theorem generate_otp_six_digits_uniform:
  assumes "100000 \<le> randint w 100000 999999" and "randint w 100000 999999 \<le> 999999"
  shows "is_otp_code (generate_otp w) \<and>
         int_of_digits (generate_otp w) = randint w 100000 999999 \<and>
         (\<forall>c. card {r. 100000 \<le> r \<and> r \<le> 999999 \<and>
                      generate_otp (w\<lparr>randint := \<lambda>a b. r\<rparr>) = c} =
               (if is_otp_code c then 1 else 0))"
proof (intro conjI allI)
  show "is_otp_code (generate_otp w)"
    using generate_otp_is_code(1) [OF assms] by (simp add: generate_otp_def)
  show "int_of_digits (generate_otp w) = randint w 100000 999999"
    using generate_otp_is_code(2) [OF assms] by (simp add: generate_otp_def)
next
  fix c
  have "{r. 100000 \<le> r \<and> r \<le> 999999 \<and> generate_otp (w\<lparr>randint := \<lambda>a b. r\<rparr>) = c} =
        {r. 100000 \<le> r \<and> r \<le> 999999 \<and> str_int r = c}"
    by (simp add: generate_otp_def)
  then show "card {r. 100000 \<le> r \<and> r \<le> 999999 \<and> generate_otp (w\<lparr>randint := \<lambda>a b. r\<rparr>) = c} =
        (if is_otp_code c then 1 else 0)"
    by (simp only: draws_of_code) simp
qed

theorem generate_otp_six_digits_uniform_witness:
  "100000 \<le> randint (mock_world [] 482913 (Inl (TransportError ''ConnectionError'' ''unreachable''))) 100000 999999 \<and>
   randint (mock_world [] 482913 (Inl (TransportError ''ConnectionError'' ''unreachable''))) 100000 999999 \<le> 999999 \<and>
   generate_otp (mock_world [] 482913 (Inl (TransportError ''ConnectionError'' ''unreachable''))) = ''482913'' \<and>
   is_otp_code (generate_otp (mock_world [] 482913 (Inl (TransportError ''ConnectionError'' ''unreachable''))))"
  using generate_otp_six_digits_uniform
    [of "mock_world [] 482913 (Inl (TransportError ''ConnectionError'' ''unreachable''))"]
  by (simp add: mock_world_def generate_otp_def str_int_482913)

subsection \<open>The request\<close>

text \<open>
  Claim C7. When both variables are set and non-empty, \<^verbatim>\<open>send_voice_otp\<close> calls
  \<^verbatim>\<open>requests.post\<close> exactly once, whatever the transport answers or raises: the log
  holds one call, to the gateway URL followed by \<^verbatim>\<open>/send-otp\<close>, with the JSON body
  \<^verbatim>\<open>{"phone": phone, "code": effective code, "secret": secret}\<close>, the header
  \<^verbatim>\<open>Content-Type: application/json\<close> and a timeout of 30 seconds. There is no
  second call, so no retry.
\<close>

theorem one_post_request:
  assumes "environ w ''GATEWAY_URL'' = Some g" and "g \<noteq> []"
      and "environ w ''API_SECRET'' = Some s" and "s \<noteq> []"
  shows "fst (send_voice_otp w phone code) =
     [\<lparr>url = g @ ''/send-otp'',
       json = [(''phone'', phone), (''code'', effective_code w code), (''secret'', s)],
       headers = [(''Content-Type'', ''application/json'')],
       timeout = 30\<rparr>]"
  by (simp add: send_voice_otp_configured [OF assms] Let_def)

theorem one_post_request_witness:
  "fst (send_voice_otp
         (mock_world gateway_env 482913 (Inl (TransportError ''Timeout'' ''timed out'')))
         ''+14155551234'' None) =
     [\<lparr>url = ''https://gateway.example/send-otp'',
       json = [(''phone'', ''+14155551234''), (''code'', ''482913''), (''secret'', ''s3cret'')],
       headers = [(''Content-Type'', ''application/json'')],
       timeout = 30\<rparr>]"
  using one_post_request
    [of "mock_world gateway_env 482913 (Inl (TransportError ''Timeout'' ''timed out''))"
        "''https://gateway.example''" "''s3cret''" "''+14155551234''" None]
  by (simp add: mock_world_simps gateway_env_def effective_code_def generate_otp_mock)

text \<open>
  Claim C2. The code sent is the caller's code exactly as given, whatever its format,
  when it is present and non-empty; when it is absent or the empty string, the code sent
  is the generated one, which is six digits when \<^verbatim>\<open>random.randint\<close> keeps its range.
\<close>

theorem effective_code_sent:
  assumes "environ w ''GATEWAY_URL'' = Some g" and "g \<noteq> []"
      and "environ w ''API_SECRET'' = Some s" and "s \<noteq> []"
  shows "(\<forall>c. code = Some c \<and> c \<noteq> [] \<longrightarrow>
            map (\<lambda>a. map_of (json a) ''code'') (fst (send_voice_otp w phone code)) = [Some c]) \<and>
         (code = None \<or> code = Some [] \<longrightarrow>
            map (\<lambda>a. map_of (json a) ''code'') (fst (send_voice_otp w phone code)) =
              [Some (generate_otp w)]) \<and>
         (100000 \<le> randint w 100000 999999 \<and> randint w 100000 999999 \<le> 999999 \<longrightarrow>
            is_otp_code (generate_otp w))"
proof (intro conjI allI impI)
  fix c
  assume "code = Some c \<and> c \<noteq> []"
  then show "map (\<lambda>a. map_of (json a) ''code'') (fst (send_voice_otp w phone code)) = [Some c]"
    by (simp add: send_voice_otp_configured [OF assms] Let_def effective_code_def)
next
  assume "code = None \<or> code = Some []"
  then show "map (\<lambda>a. map_of (json a) ''code'') (fst (send_voice_otp w phone code)) =
      [Some (generate_otp w)]"
    by (auto simp: send_voice_otp_configured [OF assms] Let_def effective_code_def)
next
  assume "100000 \<le> randint w 100000 999999 \<and> randint w 100000 999999 \<le> 999999"
  then show "is_otp_code (generate_otp w)"
    using generate_otp_is_code(1) [of "randint w 100000 999999"] by (simp add: generate_otp_def)
qed

theorem effective_code_sent_witness:
  "map (\<lambda>a. map_of (json a) ''code'')
     (fst (send_voice_otp (mock_world gateway_env 482913 (Inr queued_response))
        ''+14155551234'' (Some ''otp-7''))) = [Some ''otp-7''] \<and>
   map (\<lambda>a. map_of (json a) ''code'')
     (fst (send_voice_otp (mock_world gateway_env 482913 (Inr queued_response))
        ''+14155551234'' (Some ''''))) = [Some ''482913''] \<and>
   is_otp_code (generate_otp (mock_world gateway_env 482913 (Inr queued_response)))"
  using effective_code_sent
    [of "mock_world gateway_env 482913 (Inr queued_response)"
        "''https://gateway.example''" "''s3cret''" "Some ''otp-7''" "''+14155551234''"]
    effective_code_sent
    [of "mock_world gateway_env 482913 (Inr queued_response)"
        "''https://gateway.example''" "''s3cret''" "Some ''''" "''+14155551234''"]
  by (simp add: mock_world_simps gateway_env_def generate_otp_mock)

subsection \<open>Configuration errors\<close>

text \<open>
  Claim C3. When \<^verbatim>\<open>GATEWAY_URL\<close> or \<^verbatim>\<open>API_SECRET\<close> is unset, \<^verbatim>\<open>send_voice_otp\<close>
  fails with a \<^verbatim>\<open>ValueError\<close> whose message names a variable that cannot be resolved
  (\<^verbatim>\<open>GATEWAY_URL\<close> when that one is unset, \<^verbatim>\<open>API_SECRET\<close> when the gateway URL is set
  and non-empty), and the log of HTTP calls is empty.
\<close>

theorem unset_variable_fails_before_request:
  assumes "environ w ''GATEWAY_URL'' = None \<or> environ w ''API_SECRET'' = None"
  shows "fst (send_voice_otp w phone code) = [] \<and>
         (environ w ''GATEWAY_URL'' = None \<longrightarrow>
            snd (send_voice_otp w phone code) =
              Inl (ValueError ''GATEWAY_URL environment variable is required'')) \<and>
         (environ w ''GATEWAY_URL'' \<noteq> None \<and> environ w ''GATEWAY_URL'' \<noteq> Some [] \<longrightarrow>
            snd (send_voice_otp w phone code) =
              Inl (ValueError ''API_SECRET environment variable is required'')) \<and>
         (\<exists>v. (v = ''GATEWAY_URL'' \<or> v = ''API_SECRET'') \<and>
              (environ w v = None \<or> environ w v = Some []) \<and>
              snd (send_voice_otp w phone code) =
                Inl (ValueError (v @ '' environment variable is required'')))"
proof (cases "environ w ''GATEWAY_URL'' = None \<or> environ w ''GATEWAY_URL'' = Some []")
  case True
  from send_voice_otp_unconfigured(1) [OF True]
  have "send_voice_otp w phone code =
      ([], Inl (ValueError ''GATEWAY_URL environment variable is required''))" .
  with True show ?thesis
    by (auto intro: exI [of _ "''GATEWAY_URL''"])
next
  case False
  then obtain g where g: "environ w ''GATEWAY_URL'' = Some g" "g \<noteq> []" by auto
  with assms have s: "environ w ''API_SECRET'' = None" by simp
  then have "send_voice_otp w phone code =
      ([], Inl (ValueError ''API_SECRET environment variable is required''))"
    using send_voice_otp_unconfigured(2) [OF g] by simp
  with g s show ?thesis
    by (auto intro: exI [of _ "''API_SECRET''"])
qed

theorem unset_variable_fails_before_request_witness:
  "(environ (mock_world [(''GATEWAY_URL'', ''https://gateway.example'')] 482913 (Inr queued_response))
      ''GATEWAY_URL'' = None \<or>
    environ (mock_world [(''GATEWAY_URL'', ''https://gateway.example'')] 482913 (Inr queued_response))
      ''API_SECRET'' = None) \<and>
   send_voice_otp (mock_world [(''GATEWAY_URL'', ''https://gateway.example'')] 482913 (Inr queued_response))
     ''+14155551234'' None =
     ([], Inl (ValueError ''API_SECRET environment variable is required''))"
  using unset_variable_fails_before_request
    [of "mock_world [(''GATEWAY_URL'', ''https://gateway.example'')] 482913 (Inr queued_response)"
        "''+14155551234''" None]
  by (simp add: mock_world_simps prod_eq_iff)

text \<open>
  Claim C9. A variable set to the empty string is treated as an unset one: the call
  fails before any request with the configuration error of that variable
  (\<^verbatim>\<open>GATEWAY_URL\<close> is checked first), and the run equals the run in the environment
  where the variable is removed.
\<close>

theorem empty_variable_treated_as_unset:
  assumes "environ w ''GATEWAY_URL'' = Some [] \<or> environ w ''API_SECRET'' = Some []"
  shows "fst (send_voice_otp w phone code) = [] \<and>
         (environ w ''GATEWAY_URL'' = Some [] \<longrightarrow>
            snd (send_voice_otp w phone code) =
              Inl (ValueError ''GATEWAY_URL environment variable is required'') \<and>
            send_voice_otp w phone code =
              send_voice_otp (w\<lparr>environ := (environ w)(''GATEWAY_URL'' := None)\<rparr>) phone code) \<and>
         (environ w ''API_SECRET'' = Some [] \<longrightarrow>
            send_voice_otp w phone code =
              send_voice_otp (w\<lparr>environ := (environ w)(''API_SECRET'' := None)\<rparr>) phone code) \<and>
         (environ w ''API_SECRET'' = Some [] \<and>
          environ w ''GATEWAY_URL'' \<noteq> None \<and> environ w ''GATEWAY_URL'' \<noteq> Some [] \<longrightarrow>
            snd (send_voice_otp w phone code) =
              Inl (ValueError ''API_SECRET environment variable is required''))"
  using assms
  by (auto simp: send_voice_otp_def Let_def split: option.splits)

theorem empty_variable_treated_as_unset_witness:
  "(environ (mock_world [(''GATEWAY_URL'', ''https://gateway.example''), (''API_SECRET'', [])]
             482913 (Inr queued_response)) ''GATEWAY_URL'' = Some [] \<or>
    environ (mock_world [(''GATEWAY_URL'', ''https://gateway.example''), (''API_SECRET'', [])]
             482913 (Inr queued_response)) ''API_SECRET'' = Some []) \<and>
   send_voice_otp (mock_world [(''GATEWAY_URL'', ''https://gateway.example''), (''API_SECRET'', [])]
                    482913 (Inr queued_response)) ''+14155551234'' None =
     ([], Inl (ValueError ''API_SECRET environment variable is required''))"
proof -
  let ?w = "mock_world [(''GATEWAY_URL'', ''https://gateway.example''), (''API_SECRET'', [])]
              482913 (Inr queued_response)"
  have g: "environ ?w ''GATEWAY_URL'' \<noteq> None" "environ ?w ''GATEWAY_URL'' \<noteq> Some []"
    and s: "environ ?w ''API_SECRET'' = Some []"
    by (simp_all add: mock_world_simps)
  from s have empty: "environ ?w ''GATEWAY_URL'' = Some [] \<or> environ ?w ''API_SECRET'' = Some []"
    by (rule disjI2)
  note run = empty_variable_treated_as_unset [OF empty, of "''+14155551234''" None]
  from run have "fst (send_voice_otp ?w ''+14155551234'' None) = []"
    by (rule conjunct1)
  moreover from run g s have "snd (send_voice_otp ?w ''+14155551234'' None) =
      Inl (ValueError ''API_SECRET environment variable is required'')"
    by blast
  ultimately have "send_voice_otp ?w ''+14155551234'' None =
      ([], Inl (ValueError ''API_SECRET environment variable is required''))"
    by (simp add: prod_eq_iff)
  with empty show ?thesis by (rule conjI)
qed

subsection \<open>Responses\<close>

text \<open>
  Claim C5. On a response whose status is not ok and whose body parses to a JSON object,
  \<^verbatim>\<open>send_voice_otp\<close> fails with an \<^verbatim>\<open>HTTPError\<close> whose text is
  \<^verbatim>\<open>API Error: {message} ({error})\<close>, the two fields read from the body and an absent
  field shown as \<^verbatim>\<open>None\<close>. For the body
  \<^verbatim>\<open>{"message": "invalid secret", "error": "AUTH_FAILED"}\<close> the text is
  \<^verbatim>\<open>API Error: invalid secret (AUTH_FAILED)\<close>.
\<close>

theorem api_error_text:
  assumes "environ w ''GATEWAY_URL'' = Some g" and "g \<noteq> []"
      and "environ w ''API_SECRET'' = Some s" and "s \<noteq> []"
      and "\<forall>a. post w a = Inr r" and "\<not> ok r" and "response_json r = Inr (JObj d)"
  shows "snd (send_voice_otp w phone code) =
     Inl (HTTPError (''API Error: '' @
       (case map_of d ''message'' of None \<Rightarrow> ''None'' | Some v \<Rightarrow> format_value w v) @ '' ('' @
       (case map_of d ''error'' of None \<Rightarrow> ''None'' | Some v \<Rightarrow> format_value w v) @ '')''))"
  using assms(5-7)
  by (simp add: send_voice_otp_configured [OF assms(1-4)] Let_def interpret_response_def
      api_error_object)

theorem api_error_text_witness:
  "snd (send_voice_otp (mock_world gateway_env 482913 (Inr auth_failed_response))
          ''+14155551234'' None) =
     Inl (HTTPError ''API Error: invalid secret (AUTH_FAILED)'')"
  using api_error_text
    [of "mock_world gateway_env 482913 (Inr auth_failed_response)"
        "''https://gateway.example''" "''s3cret''" auth_failed_response
        "[(''message'', JStr ''invalid secret''), (''error'', JStr ''AUTH_FAILED'')]"
        "''+14155551234''" None]
  by (simp add: mock_world_simps gateway_env_def auth_failed_response_def)

text \<open>
  Claim C10. On a response whose status is not ok, the body is parsed before the error is
  built: a body that is not JSON makes the call fail with the parse failure itself, and
  the call fails with an \<^verbatim>\<open>HTTPError\<close> exactly when the body parses to a JSON object.
\<close>

theorem failure_body_parsed_first:
  assumes "environ w ''GATEWAY_URL'' = Some g" and "g \<noteq> []"
      and "environ w ''API_SECRET'' = Some s" and "s \<noteq> []"
      and "\<forall>a. post w a = Inr r" and "\<not> ok r"
  shows "(\<forall>m. response_json r = Inl m \<longrightarrow>
            snd (send_voice_otp w phone code) = Inl (JSONDecodeError m)) \<and>
         ((\<exists>t. snd (send_voice_otp w phone code) = Inl (HTTPError t)) \<longleftrightarrow>
          (\<exists>d. response_json r = Inr (JObj d)))"
proof -
  have send: "snd (send_voice_otp w phone code) =
      (case response_json r of
         Inl m \<Rightarrow> Inl (JSONDecodeError m)
       | Inr error \<Rightarrow> Inl (api_error w error))"
    using assms(5,6)
    by (simp add: send_voice_otp_configured [OF assms(1-4)] Let_def interpret_response_def)
  show ?thesis
  proof (cases "response_json r")
    case (Inl m)
    with send show ?thesis by simp
  next
    case (Inr v)
    show ?thesis
    proof (cases "\<exists>d. v = JObj d")
      case True
      with send Inr show ?thesis by (auto simp: api_error_object)
    next
      case False
      then obtain m where "api_error w v = AttributeError m"
        using api_error_not_object [of v w] by auto
      with send Inr False show ?thesis by simp
    qed
  qed
qed

theorem failure_body_parsed_first_witness:
  "snd (send_voice_otp
          (mock_world gateway_env 482913
             (Inr \<lparr>ok = False, response_json = Inl ''Expecting value: line 1 column 1 (char 0)''\<rparr>))
          ''+14155551234'' None) =
     Inl (JSONDecodeError ''Expecting value: line 1 column 1 (char 0)'')"
  using failure_body_parsed_first
    [of "mock_world gateway_env 482913
           (Inr \<lparr>ok = False, response_json = Inl ''Expecting value: line 1 column 1 (char 0)''\<rparr>)"
        "''https://gateway.example''" "''s3cret''"
        "\<lparr>ok = False, response_json = Inl ''Expecting value: line 1 column 1 (char 0)''\<rparr>"
        "''+14155551234''" None]
  by (simp add: mock_world_simps gateway_env_def)

text \<open>
  Claim C1 says that the result's \<open>code\<close> field always equals the code that was sent.
  In \<^verbatim>\<open>{"code": otp_code, **response.json()}\<close> the body is spread after the \<open>code\<close>
  entry, so a \<open>code\<close> field of the body replaces it: the code sent is 482913 and the
  result says 000000.
\<close>

theorem body_code_overrides_counterexample:
  "send_voice_otp
     (mock_world gateway_env 482913
        (Inr \<lparr>ok = True,
              response_json = Inr (JObj [(''code'', JStr ''000000''), (''status'', JStr ''queued'')])\<rparr>))
     ''+14155551234'' None =
   ([\<lparr>url = ''https://gateway.example/send-otp'',
      json = [(''phone'', ''+14155551234''), (''code'', ''482913''), (''secret'', ''s3cret'')],
      headers = [(''Content-Type'', ''application/json'')],
      timeout = 30\<rparr>],
    Inr [(''code'', JStr ''000000''), (''status'', JStr ''queued'')]) \<and>
   map_of [(''code'', JStr ''000000''), (''status'', JStr ''queued'')] ''code'' \<noteq>
     Some (JStr ''482913'')"
  by (simp add: send_voice_otp_def mock_world_simps gateway_env_def Let_def effective_code_def
      generate_otp_mock interpret_response_def dict_display_def)

text \<open>
  Claim C1, amended. On an ok response whose body parses to a JSON object, the result
  holds the fields of the body, and the field \<open>code\<close> with the effective code when
  the body has no \<open>code\<close> field; a \<open>code\<close> field of the body is kept as it is.
\<close>

theorem success_result_is_body_with_code:
  assumes "environ w ''GATEWAY_URL'' = Some g" and "g \<noteq> []"
      and "environ w ''API_SECRET'' = Some s" and "s \<noteq> []"
      and "\<forall>a. post w a = Inr r" and "ok r" and "response_json r = Inr (JObj d)"
      and "distinct (map fst d)"
  shows "\<exists>result. snd (send_voice_otp w phone code) = Inr result \<and>
           map_of result = [''code'' \<mapsto> JStr (effective_code w code)] ++ map_of d \<and>
           (''code'' \<notin> fst ` set d \<longrightarrow>
              map_of result = (map_of d)(''code'' \<mapsto> JStr (effective_code w code)))"
proof -
  let ?c = "effective_code w code"
  have send: "snd (send_voice_otp w phone code) = Inr (dict_display ?c d)"
    using assms(5-7)
    by (simp add: send_voice_otp_configured [OF assms(1-4)] Let_def interpret_response_def)
  have merged: "map_of (dict_display ?c d) = [''code'' \<mapsto> JStr ?c] ++ map_of d"
    unfolding dict_display_def using map_of_foldl_update [OF assms(8)] by simp
  have "[''code'' \<mapsto> JStr ?c] ++ map_of d = (map_of d)(''code'' \<mapsto> JStr ?c)"
    if "''code'' \<notin> fst ` set d"
  proof
    fix k
    from that have "map_of d ''code'' = None" by (simp add: map_of_eq_None_iff)
    then show "([''code'' \<mapsto> JStr ?c] ++ map_of d) k = ((map_of d)(''code'' \<mapsto> JStr ?c)) k"
      by (simp add: map_add_def split: option.splits)
  qed
  with send merged show ?thesis by simp
qed

theorem success_result_is_body_with_code_witness:
  "snd (send_voice_otp (mock_world gateway_env 482913 (Inr queued_response))
          ''+14155551234'' None) =
     Inr [(''code'', JStr ''482913''), (''call_id'', JStr ''abc123''), (''status'', JStr ''queued'')] \<and>
   map_of [(''code'', JStr ''482913''), (''call_id'', JStr ''abc123''), (''status'', JStr ''queued'')] =
     (map_of [(''call_id'', JStr ''abc123''), (''status'', JStr ''queued'')])
       (''code'' \<mapsto> JStr ''482913'')"
proof -
  let ?w = "mock_world gateway_env 482913 (Inr queued_response)"
  let ?d = "[(''call_id'', JStr ''abc123''), (''status'', JStr ''queued'')]"
  let ?result = "[(''code'', JStr ''482913''), (''call_id'', JStr ''abc123''),
                  (''status'', JStr ''queued'')]"
  have code: "effective_code ?w None = ''482913''"
    by (simp add: effective_code_def generate_otp_mock)
  have "\<exists>result. snd (send_voice_otp ?w ''+14155551234'' None) = Inr result \<and>
           map_of result = [''code'' \<mapsto> JStr (effective_code ?w None)] ++ map_of ?d \<and>
           (''code'' \<notin> fst ` set ?d \<longrightarrow>
              map_of result = (map_of ?d)(''code'' \<mapsto> JStr (effective_code ?w None)))"
    by (rule success_result_is_body_with_code
          [of ?w "''https://gateway.example''" "''s3cret''" queued_response ?d])
       (simp_all add: mock_world_simps gateway_env_def queued_response_def)
  moreover have "''code'' \<notin> fst ` set ?d" by simp
  ultimately obtain result where
    r: "snd (send_voice_otp ?w ''+14155551234'' None) = Inr result"
    and m: "map_of result = (map_of ?d)(''code'' \<mapsto> JStr ''482913'')"
    unfolding code by blast
  have e: "snd (send_voice_otp ?w ''+14155551234'' None) = Inr ?result"
    by (simp add: send_voice_otp_def mock_world_simps gateway_env_def Let_def effective_code_def
        generate_otp_mock interpret_response_def dict_display_def queued_response_def)
  with r have "result = ?result" by (simp only: sum.inject)
  with m have "map_of ?result = (map_of ?d)(''code'' \<mapsto> JStr ''482913'')" by (simp only:)
  with e show ?thesis by (rule conjI)
qed

subsection \<open>The entry point\<close>

text \<open>
  Claim C8. The entry point exits with status 0 exactly when a phone argument is given,
  it matches the pattern and the send operation returns a result, and it then prints
  \<^verbatim>\<open>Success: <result>\<close>. It exits with status 1 in every other case: without a phone
  argument it prints the usage, on a phone that does not match it prints the format
  error, and on any exception of the send operation it prints \<^verbatim>\<open>Failed: <error>\<close>.
\<close>

theorem main_exit_status:
  "(length argv < 2 \<longrightarrow>
      main w argv =
        \<lparr>stdout = [''Usage: python python-requests.py <phone> [code]'',
                   ''Example: python python-requests.py +14155551234''],
         exit_status = 1, http_calls = []\<rparr>) \<and>
   (2 \<le> length argv \<and> \<not> re_match phone_pattern (argv ! 1) \<longrightarrow>
      main w argv =
        \<lparr>stdout = [''Error: Phone must be in E.164 format (e.g., +14155551234)''],
         exit_status = 1, http_calls = []\<rparr>) \<and>
   (\<forall>calls result.
      2 \<le> length argv \<and> re_match phone_pattern (argv ! 1) \<and>
      send_voice_otp w (argv ! 1) (if 2 < length argv then Some (argv ! 2) else None) =
        (calls, Inr result) \<longrightarrow>
      main w argv =
        \<lparr>stdout = [''Sending OTP to '' @ argv ! 1 @ ''...'',
                   ''Success: '' @ repr w (JObj result)],
         exit_status = 0, http_calls = calls\<rparr>) \<and>
   (\<forall>calls e.
      2 \<le> length argv \<and> re_match phone_pattern (argv ! 1) \<and>
      send_voice_otp w (argv ! 1) (if 2 < length argv then Some (argv ! 2) else None) =
        (calls, Inl e) \<longrightarrow>
      main w argv =
        \<lparr>stdout = [''Sending OTP to '' @ argv ! 1 @ ''...'', ''Failed: '' @ str_exn e],
         exit_status = 1, http_calls = calls\<rparr>) \<and>
   (exit_status (main w argv) = 0 \<longleftrightarrow>
      2 \<le> length argv \<and> re_match phone_pattern (argv ! 1) \<and>
      (\<exists>calls result.
         send_voice_otp w (argv ! 1) (if 2 < length argv then Some (argv ! 2) else None) =
           (calls, Inr result))) \<and>
   (exit_status (main w argv) = 0 \<or> exit_status (main w argv) = 1)"
proof -
  obtain calls res where
    send: "send_voice_otp w (argv ! 1) (if 2 < length argv then Some (argv ! 2) else None) =
             (calls, res)"
    by (cases "send_voice_otp w (argv ! 1) (if 2 < length argv then Some (argv ! 2) else None)")
  show ?thesis
  proof (cases res)
    case (Inl e)
    with send show ?thesis by (simp add: main_def Let_def)
  next
    case (Inr result)
    with send show ?thesis by (simp add: main_def Let_def)
  qed
qed

theorem main_exit_status_witness:
  "main (mock_world gateway_env 482913 (Inr queued_response))
        [''python-requests.py'', ''+14155551234''] =
     \<lparr>stdout = [''Sending OTP to +14155551234...'', ''Success: {...}''],
      exit_status = 0,
      http_calls =
        [\<lparr>url = ''https://gateway.example/send-otp'',
          json = [(''phone'', ''+14155551234''), (''code'', ''482913''), (''secret'', ''s3cret'')],
          headers = [(''Content-Type'', ''application/json'')],
          timeout = 30\<rparr>]\<rparr> \<and>
   main (mock_world gateway_env 482913 (Inr auth_failed_response))
        [''python-requests.py'', ''+14155551234''] =
     \<lparr>stdout = [''Sending OTP to +14155551234...'',
                ''Failed: API Error: invalid secret (AUTH_FAILED)''],
      exit_status = 1,
      http_calls =
        [\<lparr>url = ''https://gateway.example/send-otp'',
          json = [(''phone'', ''+14155551234''), (''code'', ''482913''), (''secret'', ''s3cret'')],
          headers = [(''Content-Type'', ''application/json'')],
          timeout = 30\<rparr>]\<rparr> \<and>
   exit_status (main (mock_world gateway_env 482913 (Inr queued_response))
                  [''python-requests.py'', ''14155551234'']) = 1 \<and>
   exit_status (main (mock_world gateway_env 482913 (Inr queued_response))
                  [''python-requests.py'']) = 1"
  using
    main_exit_status [of "[''python-requests.py'', ''+14155551234'']"
                         "mock_world gateway_env 482913 (Inr queued_response)"]
    main_exit_status [of "[''python-requests.py'', ''+14155551234'']"
                         "mock_world gateway_env 482913 (Inr auth_failed_response)"]
    main_exit_status [of "[''python-requests.py'', ''14155551234'']"
                         "mock_world gateway_env 482913 (Inr queued_response)"]
    main_exit_status [of "[''python-requests.py'']"
                         "mock_world gateway_env 482913 (Inr queued_response)"]
  by (simp add: example_phone_matches send_queued send_auth_failed mock_world_simps
      re_match_def phone_pattern_def)

text \<open>
  Claim C4. The phone is to be accepted exactly when it is a \<^verbatim>\<open>+\<close>, a digit from 1 to
  9 and 9 to 14 more digits. The pattern ends in \<^verbatim>\<open>$\<close>, which also holds before a
  final newline (see \<open>phone_accepted_iff\<close>), so the argument \<^verbatim>\<open>+14155551234\<close>
  followed by a newline is accepted and posted to the gateway with the newline in it.
\<close>

theorem trailing_newline_phone_is_sent:
  "main (mock_world gateway_env 482913 (Inr queued_response))
        [''python-requests.py'', ''+14155551234'' @ [CHR 0x0A]] =
     \<lparr>stdout = [''Sending OTP to +14155551234'' @ [CHR 0x0A] @ ''...'', ''Success: {...}''],
      exit_status = 0,
      http_calls =
        [\<lparr>url = ''https://gateway.example/send-otp'',
          json = [(''phone'', ''+14155551234'' @ [CHR 0x0A]), (''code'', ''482913''),
                  (''secret'', ''s3cret'')],
          headers = [(''Content-Type'', ''application/json'')],
          timeout = 30\<rparr>]\<rparr>"
  by (simp add: main_def Let_def re_match_def phone_pattern_def send_queued mock_world_simps)

end
